theory Spec2Isabelle
  imports Main "HOL-Library.Sublist"
begin

section \<open>Python values used by the Pandora memory engine\<close>

text \<open>
  A Python \<open>str\<close> is a sequence of Unicode code points, so it is modelled as a list of
  code points (\<open>nat\<close>). \<open>U\<close> turns an ASCII literal into such a string; the two
  non-ASCII literals of the source (the infinity sign and the arrow) are written as
  their code points.
\<close>

type_synonym ustring = "nat list"

definition U :: "string \<Rightarrow> ustring" where
  "U s = map of_char s"

text \<open>Decimal rendering of integers, as an f-string or \<open>str\<close> does it.\<close>

fun str_nat :: "nat \<Rightarrow> ustring" where
  "str_nat n = (if n < 10 then [48 + n] else str_nat (n div 10) @ [48 + n mod 10])"

declare str_nat.simps [simp del]

definition str_int :: "int \<Rightarrow> ustring" where
  "str_int i = (if i < 0 then 45 # str_nat (nat (- i)) else str_nat (nat i))"

text \<open>
  The exceptions that occur in the modelled code. \<open>JSONDecodeError msg lineno colno pos\<close>
  is what \<open>json.loads\<close> raises on malformed text; every other exception is carried
  with its message. All of them are subclasses of \<open>Exception\<close>.
\<close>

datatype py_exception =
    JSONDecodeError ustring nat nat nat
  | IndexError
  | OtherException ustring

fun is_JSONDecodeError :: "py_exception \<Rightarrow> bool" where
  "is_JSONDecodeError (JSONDecodeError msg lineno colno pos) = True"
| "is_JSONDecodeError IndexError = False"
| "is_JSONDecodeError (OtherException s) = False"

text \<open>\<open>str(e)\<close>; for a \<open>JSONDecodeError\<close> the library formats
  \<open>'%s: line %d column %d (char %d)'\<close>.\<close>

fun str_exc :: "py_exception \<Rightarrow> ustring" where
  "str_exc (JSONDecodeError msg lineno colno pos) =
     msg @ U '': line '' @ str_nat lineno @ U '' column '' @ str_nat colno
         @ U '' (char '' @ str_nat pos @ U '')''"
| "str_exc IndexError = U ''list index out of range''"
| "str_exc (OtherException s) = s"

text \<open>JSON-like values: what \<open>json.loads\<close> returns and what the dict literals of the
  source build. An object keeps its keys in insertion order. No arithmetic is done on
  a value, so a float is carried as a mantissa and a decimal exponent.\<close>

datatype json =
    JNull
  | JBool bool
  | JInt int
  | JFloat int int
  | JStr ustring
  | JArr "json list"
  | JObj "(ustring \<times> json) list"

definition obj_get :: "ustring \<Rightarrow> json \<Rightarrow> json option" where
  "obj_get k j = (case j of JObj kvs \<Rightarrow> map_of kvs k | _ \<Rightarrow> None)"

text \<open>List indexing \<open>xs[i]\<close> and the slices \<open>xs[i:]\<close>, \<open>xs[:i]\<close>, with Python's
  treatment of negative and out-of-range positions.\<close>

definition getitem :: "'a list \<Rightarrow> int \<Rightarrow> py_exception + 'a" where
  "getitem xs i =
     (let n = int (length xs);
          j = (if i < 0 then i + n else i)
      in if j < 0 \<or> n \<le> j then Inl IndexError else Inr (xs ! nat j))"

definition slice_bound :: "'a list \<Rightarrow> int \<Rightarrow> nat" where
  "slice_bound xs i =
     (let n = int (length xs)
      in nat (if i < 0 then max (i + n) 0 else min i n))"

definition slice_from :: "'a list \<Rightarrow> int \<Rightarrow> 'a list" where
  "slice_from xs i = drop (slice_bound xs i) xs"

definition slice_to :: "'a list \<Rightarrow> int \<Rightarrow> 'a list" where
  "slice_to xs i = take (slice_bound xs i) xs"

text \<open>\<open>s.split(c)\<close> for a one-character separator, \<open>sub in s\<close> / \<open>s.index(sub)\<close>,
  and \<open>sep.join(parts)\<close>.\<close>

fun split_on :: "'a \<Rightarrow> 'a list \<Rightarrow> 'a list list" where
  "split_on c [] = [[]]"
| "split_on c (x # xs) =
     (if x = c then [] # split_on c xs
      else (case split_on c xs of
              [] \<Rightarrow> [[x]]
            | l # ls \<Rightarrow> (x # l) # ls))"

fun index_of :: "'a list \<Rightarrow> 'a list \<Rightarrow> nat option" where
  "index_of sub [] = (if sub = [] then Some 0 else None)"
| "index_of sub (x # xs) =
     (if prefix sub (x # xs) then Some 0 else map_option Suc (index_of sub xs))"

fun join :: "'a list \<Rightarrow> 'a list list \<Rightarrow> 'a list" where
  "join sep [] = []"
| "join sep [p] = p"
| "join sep (p # q # ps) = p @ sep @ join sep (q # ps)"

section \<open>FloJsonOutputCollector\<close>

record FloJsonOutputCollector =
  buffer :: "json list"
  strict_mode :: bool
  comment_strip :: bool
  reverse_order :: bool

definition FloJsonOutputCollector_init :: FloJsonOutputCollector where
  "FloJsonOutputCollector_init =
     \<lparr>buffer = [], strict_mode = False, comment_strip = True, reverse_order = True\<rparr>"

text \<open>The argument of \<open>collect\<close>: a \<open>str\<close> or an already structured value.\<close>

datatype collect_input = Text ustring | Parsed json

text \<open>\<open>fetch\<close> reads the buffer and returns a new list; the collector it was called on
  is returned beside the result so that its effect on the buffer can be stated.\<close>

definition fetch :: "FloJsonOutputCollector \<Rightarrow> int \<Rightarrow> json list \<times> FloJsonOutputCollector" where
  "fetch c depth =
     (if depth \<le> 0 \<or> buffer c = [] then ([], c)
      else (if reverse_order c then slice_from (buffer c) (- depth)
            else slice_to (buffer c) depth, c))"

definition strip_line :: "ustring \<Rightarrow> ustring" where
  "strip_line line =
     (case index_of (U ''//'') line of
        None \<Rightarrow> line
      | Some i \<Rightarrow> take i line)"

definition strip_comments :: "FloJsonOutputCollector \<Rightarrow> ustring \<Rightarrow> ustring" where
  "strip_comments c json_str =
     (if \<not> comment_strip c then json_str
      else join [10] (map strip_line (split_on 10 json_str)))"

text \<open>
  \<open>collect\<close>. The decoder \<open>json.loads\<close> belongs to the Python library and is a
  parameter: it returns the parsed value or the exception it raises. Only
  \<open>JSONDecodeError\<close> is handled; any other exception leaves \<open>collect\<close>.
\<close>

definition collect ::
  "(ustring \<Rightarrow> py_exception + json) \<Rightarrow> FloJsonOutputCollector \<Rightarrow> collect_input
     \<Rightarrow> py_exception + (bool \<times> FloJsonOutputCollector)" where
  "collect json_loads c data =
     (case data of
        Parsed parsed_data \<Rightarrow> Inr (True, c\<lparr>buffer := buffer c @ [parsed_data]\<rparr>)
      | Text s \<Rightarrow>
          (case json_loads (strip_comments c s) of
             Inr parsed_data \<Rightarrow> Inr (True, c\<lparr>buffer := buffer c @ [parsed_data]\<rparr>)
           | Inl e \<Rightarrow>
               if is_JSONDecodeError e then
                 (if \<not> strict_mode c then
                    Inr (True,
                         c\<lparr>buffer := buffer c @
                            [JObj [(U ''partial_state'', JStr s),
                                   (U ''error'', JStr (str_exc e))]]\<rparr>)
                  else Inr (False, c))
               else Inl e))"

text \<open>The \<open>while\<close> loop of \<open>iter_q\<close>: \<open>idx\<close> runs downwards to 0 when
  \<open>reverse_order\<close> is set and upwards to the end of the buffer otherwise.\<close>

function iter_q_loop ::
  "bool \<Rightarrow> json list \<Rightarrow> int \<Rightarrow> json list \<Rightarrow> py_exception + json list" where
  "iter_q_loop ro buf idx result =
     (if (if ro then 0 \<le> idx else idx < int (length buf)) then
        (case getitem buf idx of
           Inl ex \<Rightarrow> Inl ex
         | Inr item \<Rightarrow>
             iter_q_loop ro buf (if ro then idx - 1 else idx + 1) (result @ [item]))
      else Inr result)"
  by pat_completeness auto
termination
  by (relation "measure (\<lambda>(ro, buf, idx, result).
        if ro then nat (idx + 1) else nat (int (length buf) - idx))") auto

declare iter_q_loop.simps [simp del]

definition iter_q ::
  "FloJsonOutputCollector \<Rightarrow> bool
     \<Rightarrow> (py_exception + json list) \<times> FloJsonOutputCollector" where
  "iter_q c hybrid_mode =
     (if \<not> hybrid_mode then
        (Inr (if reverse_order c then rev (buffer c) else buffer c), c)
      else
        (iter_q_loop (reverse_order c) (buffer c)
           (if reverse_order c then int (length (buffer c)) - 1 else 0) [], c))"

section \<open>QInfinityMemoryLine\<close>

text \<open>A \<open>datetime\<close> is represented by its ISO-8601 rendering, the only way the engine
  uses it.\<close>

type_synonym datetime = ustring

record QInfinityMemoryLine =
  line_id :: ustring
  timestamp :: datetime
  stage :: ustring
  state :: ustring
  identity :: ustring
  memory :: "ustring list"
  line_semantic_tags :: "ustring list"
  hash_value :: ustring
  line_breath_cycle :: int

definition to_dict :: "QInfinityMemoryLine \<Rightarrow> json" where
  "to_dict ml =
     JObj [(U ''id'', JStr (line_id ml)),
           (U ''timestamp'', JStr (timestamp ml)),
           (U ''stage'', JStr (stage ml)),
           (U ''state'', JStr (state ml)),
           (U ''identity'', JStr (identity ml)),
           (U ''memory'', JArr (map JStr (memory ml))),
           (U ''semantic_tags'', JArr (map JStr (line_semantic_tags ml))),
           (U ''hash_value'', JStr (hash_value ml)),
           (U ''breath_cycle'', JInt (line_breath_cycle ml))]"

section \<open>The surroundings of the engine\<close>

text \<open>
  What the engine obtains from outside its own code is a parameter of the model. Each
  reading is indexed by a counter (\<open>clock\<close> below) that advances with every reading, so
  that two readings may differ:
  \<^item> \<open>uuid4 t\<close> and \<open>utcnow t\<close>: the identifier and the time drawn at reading \<open>t\<close>;
  \<^item> \<open>json_loads\<close>: the library's decoder;
  \<^item> \<open>py_str\<close>: \<open>str\<close> of a request payload, or the exception it raises;
  \<^item> \<open>repr_lines\<close>: \<open>str\<close> of the list of memory lines;
  \<^item> \<open>open_w t path\<close>: creating the parent directory and opening \<open>path\<close> for writing;
    \<open>None\<close> when it succeeds, the exception otherwise;
  \<^item> \<open>json_dump t path doc\<close>: \<open>json.dump\<close> of \<open>doc\<close> into the opened file, likewise.
\<close>

record host =
  uuid4 :: "nat \<Rightarrow> ustring"
  utcnow :: "nat \<Rightarrow> datetime"
  json_loads :: "ustring \<Rightarrow> py_exception + json"
  py_str :: "json \<Rightarrow> py_exception + ustring"
  repr_lines :: "QInfinityMemoryLine list \<Rightarrow> ustring"
  open_w :: "nat \<Rightarrow> ustring \<Rightarrow> py_exception option"
  json_dump :: "nat \<Rightarrow> ustring \<Rightarrow> json \<Rightarrow> py_exception option"

text \<open>The calls the engine makes on the database and the file system, in the order
  they are attempted (whether or not they succeed).\<close>

datatype effect =
    InsertOne json
  | OpenWrite ustring
  | JsonDump ustring json

text \<open>A stage descriptor of the memory reel: a mapping with the optional keys
  \<open>stage\<close>, \<open>state\<close>, \<open>identity\<close> and \<open>memory\<close>.\<close>

record stage_data =
  reel_stage :: "ustring option"
  reel_state :: "ustring option"
  reel_identity :: "ustring option"
  reel_memory :: "ustring list option"

definition dict_get :: "'a option \<Rightarrow> 'a \<Rightarrow> 'a" where
  "dict_get v dflt = (case v of None \<Rightarrow> dflt | Some x \<Rightarrow> x)"

section \<open>PandoraMemoryEngine\<close>

text \<open>
  The fields of the class, followed by \<open>clock\<close> (the number of readings taken from the
  surroundings) and \<open>effects\<close> (the database and file calls made so far).
  \<open>breath_interval\<close>, a float used only as the argument of \<open>asyncio.sleep\<close>, and the
  logger are left out: they influence neither the state nor any result.
\<close>

record PandoraMemoryEngine =
  collector :: FloJsonOutputCollector
  memory_lines :: "QInfinityMemoryLine list"
  breath_cycle_count :: int
  is_running :: bool
  context_window_size :: int
  semantic_tags :: "ustring list"
  checkpoints :: "ustring list"
  config :: json
  memory_reel :: "stage_data list"
  clock :: nat
  effects :: "effect list"

text \<open>\<open>__init__\<close>; the arguments are what the two loaders return.\<close>

definition PandoraMemoryEngine_init :: "json \<Rightarrow> stage_data list \<Rightarrow> PandoraMemoryEngine" where
  "PandoraMemoryEngine_init cfg reel =
     \<lparr>collector = FloJsonOutputCollector_init,
      memory_lines = [],
      breath_cycle_count = 0,
      is_running = False,
      context_window_size = 128000,
      semantic_tags = [U ''ancestral'', U ''emotional'', U ''symbolic''],
      checkpoints = [U ''genesis'', U ''awakening'', U ''reflection'', U ''5.0'', U ''5.1''],
      config = cfg,
      memory_reel = reel,
      clock = 0,
      effects = []\<rparr>"

text \<open>Constructing a memory line draws its \<open>id\<close> and \<open>timestamp\<close> (one reading).\<close>

definition new_line ::
  "host \<Rightarrow> nat \<Rightarrow> ustring \<Rightarrow> ustring \<Rightarrow> ustring \<Rightarrow> ustring list \<Rightarrow> ustring list \<Rightarrow> int
     \<Rightarrow> QInfinityMemoryLine" where
  "new_line h t stg sta idn mem tags bc =
     \<lparr>line_id = uuid4 h t, timestamp = utcnow h t, stage = stg, state = sta,
      identity = idn, memory = mem, line_semantic_tags = tags, hash_value = [8734],
      line_breath_cycle = bc\<rparr>"

text \<open>\<open>_persist_memory_line\<close>: one \<open>insert_one\<close>; an exception it raises is caught and
  logged, so the outcome does not reach the engine.\<close>

definition persist_memory_line ::
  "QInfinityMemoryLine \<Rightarrow> PandoraMemoryEngine \<Rightarrow> PandoraMemoryEngine" where
  "persist_memory_line ml e = e\<lparr>effects := effects e @ [InsertOne (to_dict ml)]\<rparr>"

fun bootstrap_loop :: "host \<Rightarrow> stage_data list \<Rightarrow> PandoraMemoryEngine \<Rightarrow> PandoraMemoryEngine" where
  "bootstrap_loop h [] e = e"
| "bootstrap_loop h (sd # rest) e =
     (let memory_line =
            new_line h (clock e)
              (dict_get (reel_stage sd) [])
              (dict_get (reel_state sd) [])
              (dict_get (reel_identity sd) [])
              (dict_get (reel_memory sd) [])
              (semantic_tags e)
              0;
          e1 = e\<lparr>memory_lines := memory_lines e @ [memory_line], clock := Suc (clock e)\<rparr>
      in bootstrap_loop h rest (persist_memory_line memory_line e1))"

definition bootstrap_memory :: "host \<Rightarrow> PandoraMemoryEngine \<Rightarrow> PandoraMemoryEngine" where
  "bootstrap_memory h e = bootstrap_loop h (memory_reel e) e"

definition count_tag :: "ustring \<Rightarrow> QInfinityMemoryLine list \<Rightarrow> int" where
  "count_tag tag lines = int (length (filter (\<lambda>l. tag \<in> set (line_semantic_tags l)) lines))"

definition snapshot_targets :: "ustring list" where
  "snapshot_targets = [U ''/mnt/data/qinfinity_memory.json'', U ''/app/data/qinfinity_memory.json'']"

definition snapshot_data :: "host \<Rightarrow> PandoraMemoryEngine \<Rightarrow> json" where
  "snapshot_data h e =
     JObj [(U ''timestamp'', JStr (utcnow h (clock e))),
           (U ''breath_cycle'', JInt (breath_cycle_count e)),
           (U ''memory_lines'', JArr (map to_dict (memory_lines e))),
           (U ''collector_buffer'', JArr (buffer (collector e))),
           (U ''config'', config e),
           (U ''context_window_usage'', JInt (int (length (repr_lines h (memory_lines e))))),
           (U ''semantic_state'',
              JObj [(U ''ancestral'', JInt (count_tag (U ''ancestral'') (memory_lines e))),
                    (U ''emotional'', JInt (count_tag (U ''emotional'') (memory_lines e))),
                    (U ''symbolic'', JInt (count_tag (U ''symbolic'') (memory_lines e)))])]"

text \<open>The \<open>for path in [...]\<close> loop of \<open>commit_memory_snapshot\<close>: it stops at the first
  exception, which it hands to the enclosing \<open>except\<close>.\<close>

fun write_targets ::
  "host \<Rightarrow> json \<Rightarrow> ustring list \<Rightarrow> PandoraMemoryEngine
     \<Rightarrow> py_exception option \<times> PandoraMemoryEngine" where
  "write_targets h doc [] e = (None, e)"
| "write_targets h doc (path # rest) e =
     (let e1 = e\<lparr>effects := effects e @ [OpenWrite path], clock := Suc (clock e)\<rparr>
      in case open_w h (clock e) path of
           Some ex \<Rightarrow> (Some ex, e1)
         | None \<Rightarrow>
             (let e2 = e1\<lparr>effects := effects e1 @ [JsonDump path doc],
                          clock := Suc (clock e1)\<rparr>
              in case json_dump h (clock e1) path doc of
                   Some ex \<Rightarrow> (Some ex, e2)
                 | None \<Rightarrow> write_targets h doc rest e2))"

definition commit_memory_snapshot ::
  "host \<Rightarrow> PandoraMemoryEngine \<Rightarrow> bool \<times> PandoraMemoryEngine" where
  "commit_memory_snapshot h e =
     (let doc = snapshot_data h e;
          e0 = e\<lparr>clock := Suc (clock e)\<rparr>
      in case write_targets h doc snapshot_targets e0 of
           (None, e') \<Rightarrow> (True, e')
         | (Some ex, e') \<Rightarrow> (False, e'))"




text \<open>
  One iteration of the loop of \<open>breath_cycle\<close>. Neither \<open>_persist_memory_line\<close> nor
  \<open>commit_memory_snapshot\<close> lets an exception out, so the \<open>except\<close> of the loop is
  never entered from the modelled calls.
\<close>

definition breath_tick :: "host \<Rightarrow> PandoraMemoryEngine \<Rightarrow> PandoraMemoryEngine" where
  "breath_tick h e =
     (let e1 = e\<lparr>breath_cycle_count := breath_cycle_count e + 1\<rparr>;
          breath_memory =
            new_line h (clock e1) (U ''breath'') (U ''active_cycle'') (U ''Pandora Q Breath'')
              [U ''Cycle '' @ str_int (breath_cycle_count e1),
               U ''Introspective traversal'',
               U ''Memory braid sync'']
              [U ''ancestral'']
              (breath_cycle_count e1);
          e2 = e1\<lparr>memory_lines := memory_lines e1 @ [breath_memory],
                   clock := Suc (clock e1)\<rparr>;
          e3 = persist_memory_line breath_memory e2
      in if breath_cycle_count e3 mod 10 = 0
         then snd (commit_memory_snapshot h e3)
         else e3)"

text \<open>\<open>breath_cycle\<close>: the loop runs for as long as \<open>is_running\<close> holds; the first
  argument is the number of iterations after which the run is observed.\<close>

fun breath_cycle :: "host \<Rightarrow> nat \<Rightarrow> PandoraMemoryEngine \<Rightarrow> PandoraMemoryEngine" where
  "breath_cycle h 0 e = e"
| "breath_cycle h (Suc n) e =
     (if is_running e then breath_cycle h n (breath_tick h e) else e)"

text \<open>\<open>start_runtime\<close> up to the point where the loop is scheduled, and
  \<open>stop_runtime\<close>.\<close>

definition start_runtime :: "host \<Rightarrow> PandoraMemoryEngine \<Rightarrow> PandoraMemoryEngine" where
  "start_runtime h e =
     (let e1 = e\<lparr>is_running := True\<rparr>
      in if memory_lines e1 = [] then bootstrap_memory h e1 else e1)"

definition stop_runtime :: "host \<Rightarrow> PandoraMemoryEngine \<Rightarrow> PandoraMemoryEngine" where
  "stop_runtime h e = snd (commit_memory_snapshot h (e\<lparr>is_running := False\<rparr>))"

definition get_runtime_status :: "host \<Rightarrow> PandoraMemoryEngine \<Rightarrow> json \<times> PandoraMemoryEngine" where
  "get_runtime_status h e =
     (JObj [(U ''status'', JStr (if is_running e then U ''active'' else U ''inactive'')),
            (U ''breath_cycle'', JInt (breath_cycle_count e)),
            (U ''memory_lines'', JInt (int (length (memory_lines e)))),
            (U ''context_window_usage'',
               JStr (str_int (int (length (repr_lines h (memory_lines e)))) @ U ''/''
                     @ str_int (context_window_size e))),
            (U ''semantic_distribution'',
               JObj [(U ''ancestral'', JInt (count_tag (U ''ancestral'') (memory_lines e))),
                     (U ''emotional'', JInt (count_tag (U ''emotional'') (memory_lines e))),
                     (U ''symbolic'', JInt (count_tag (U ''symbolic'') (memory_lines e)))]),
            (U ''last_checkpoint'',
               JStr (if memory_lines e \<noteq> [] then stage (last (memory_lines e))
                     else U ''none'')),
            (U ''collector_buffer_size'', JInt (int (length (buffer (collector e)))))],
      e)"

definition introspective_traversal ::
  "host \<Rightarrow> ustring \<Rightarrow> PandoraMemoryEngine \<Rightarrow> py_exception + (json \<times> PandoraMemoryEngine)" where
  "introspective_traversal h query e =
     (case iter_q (collector e) True of
        (Inl ex, c) \<Rightarrow> Inl ex
      | (Inr traversal_result, c) \<Rightarrow>
          (let e0 = e\<lparr>collector := c\<rparr>;
               traversal_memory =
                 new_line h (clock e0) (U ''introspection'') (U ''traversal_active'')
                   (U ''flo_core.mirror'')
                   [U ''Query: '' @ query,
                    U ''Traversed '' @ str_int (int (length traversal_result)) @ U '' items'',
                    U ''Marshmallow logic applied'']
                   [U ''emotional'', U ''symbolic'']
                   (breath_cycle_count e0);
               e1 = e0\<lparr>memory_lines := memory_lines e0 @ [traversal_memory],
                        clock := Suc (clock e0)\<rparr>;
               e2 = persist_memory_line traversal_memory e1
           in Inr (JObj [(U ''query'', JStr query),
                         (U ''traversal_items'', JInt (int (length traversal_result))),
                         (U ''memory_line_id'', JStr (line_id traversal_memory)),
                         (U ''breath_cycle'', JInt (breath_cycle_count e2)),
                         (U ''results'',
                            JArr (if 10 < length traversal_result
                                  then slice_from traversal_result (- 10)
                                  else traversal_result))],
                   e2)))"

text \<open>Every call of \<open>commit_memory_snapshot\<close> begins with one attempt to open the
  first target, and nothing else opens it: the number of these attempts among the
  effects is the number of times the committer was invoked.\<close>

definition snapshot_commits :: "effect list \<Rightarrow> nat" where
  "snapshot_commits fx =
     length (filter (\<lambda>x. x = OpenWrite (U ''/mnt/data/qinfinity_memory.json'')) fx)"

section \<open>Sample surroundings for the examples\<close>

text \<open>The answers of \<open>json.loads\<close> on the three texts used in the examples below.\<close>

definition sample_loads :: "ustring \<Rightarrow> py_exception + json" where
  "sample_loads s =
     (if s = U ''{\"url\": \"http://x\"}'' then Inr (JObj [(U ''url'', JStr (U ''http://x''))])
      else if s = U ''{\"url\": \"http:'' then
        Inl (JSONDecodeError (U ''Unterminated string starting at'') 1 9 8)
      else if s = U ''{bad json'' then
        Inl (JSONDecodeError (U ''Expecting property name enclosed in double quotes'') 1 2 1)
      else Inl (OtherException (U ''not among the sample texts'')))"

definition sample_collector :: FloJsonOutputCollector where
  "sample_collector =
     \<lparr>buffer = [JInt 1, JInt 2, JInt 3], strict_mode = False, comment_strip = True,
      reverse_order = True\<rparr>"

text \<open>Surroundings in which every file operation succeeds, and surroundings in which
  \<open>/mnt/data\<close> cannot be written.\<close>

definition sample_host :: host where
  "sample_host =
     \<lparr>uuid4 = (\<lambda>t. U ''id-'' @ str_nat t),
      utcnow = (\<lambda>t. U ''2025-01-01T00:00:'' @ str_nat t),
      json_loads = sample_loads,
      py_str = (\<lambda>j. if j = JNull then Inl (OtherException (U ''boom'')) else Inr (U ''{}'')),
      repr_lines = (\<lambda>ls. concat (map line_id ls)),
      open_w = (\<lambda>t p. None),
      json_dump = (\<lambda>t p d. None)\<rparr>"

definition mnt_unwritable_host :: host where
  "mnt_unwritable_host =
     sample_host\<lparr>open_w := (\<lambda>t p.
        if p = U ''/mnt/data/qinfinity_memory.json''
        then Some (OtherException (U ''[Errno 13] Permission denied''))
        else None)\<rparr>"

definition sample_reel :: "stage_data list" where
  "sample_reel =
     [\<lparr>reel_stage = Some (U ''genesis''), reel_state = Some (U ''seed''),
       reel_identity = Some (U ''Pandora''), reel_memory = Some [U ''first light'']\<rparr>,
      \<lparr>reel_stage = Some (U ''awakening''), reel_state = None,
       reel_identity = None, reel_memory = None\<rparr>]"

definition sample_engine :: PandoraMemoryEngine where
  "sample_engine = PandoraMemoryEngine_init JNull sample_reel"

text \<open>The answer of \<open>json.loads\<close> on the text of 100000 opening brackets: it raises
  \<open>RecursionError\<close>, which is not a \<open>JSONDecodeError\<close>.\<close>

definition recursion_limit_loads :: "ustring \<Rightarrow> py_exception + json" where
  "recursion_limit_loads s =
     (if s = replicate 100000 91 then
        Inl (OtherException
          (U ''maximum recursion depth exceeded while decoding a JSON array from a unicode string''))
      else sample_loads s)"

text \<open>An engine whose buffer holds twelve entries, collected in the order 1 to 12.\<close>

definition twelve_engine :: PandoraMemoryEngine where
  "twelve_engine =
     sample_engine\<lparr>collector := FloJsonOutputCollector_init\<lparr>buffer :=
        [JInt 1, JInt 2, JInt 3, JInt 4, JInt 5, JInt 6, JInt 7, JInt 8, JInt 9, JInt 10,
         JInt 11, JInt 12]\<rparr>\<rparr>"

text \<open>The memory line a tick creates in state \<open>e\<close>, and the state after the first three
  steps of the tick (counter incremented, line appended, \<open>insert_one\<close> issued).\<close>

definition breath_line :: "host \<Rightarrow> PandoraMemoryEngine \<Rightarrow> QInfinityMemoryLine" where
  "breath_line h e =
     new_line h (clock e) (U ''breath'') (U ''active_cycle'') (U ''Pandora Q Breath'')
       [U ''Cycle '' @ str_int (breath_cycle_count e + 1),
        U ''Introspective traversal'',
        U ''Memory braid sync'']
       [U ''ancestral'']
       (breath_cycle_count e + 1)"

definition after_append :: "host \<Rightarrow> PandoraMemoryEngine \<Rightarrow> PandoraMemoryEngine" where
  "after_append h e =
     e\<lparr>breath_cycle_count := breath_cycle_count e + 1,
       memory_lines := memory_lines e @ [breath_line h e],
       clock := Suc (clock e),
       effects := effects e @ [InsertOne (to_dict (breath_line h e))]\<rparr>"

section \<open>Properties of the collector\<close>


lemma getitem_in_range:
  "0 \<le> i \<Longrightarrow> i < int (length xs) \<Longrightarrow> getitem xs i = Inr (xs ! nat i)"
  by (simp add: getitem_def Let_def)

lemma iter_q_loop_forward_gen:
  "\<not> ro \<Longrightarrow> 0 \<le> idx \<Longrightarrow> idx \<le> int (length buf) \<Longrightarrow>
   iter_q_loop ro buf idx result = Inr (result @ drop (nat idx) buf)"
proof (induction ro buf idx result rule: iter_q_loop.induct)
  case (1 ro buf idx result)
  show ?case
  proof (cases "idx < int (length buf)")
    case True
    have g: "getitem buf idx = Inr (buf ! nat idx)"
      using True "1.prems" by (simp add: getitem_in_range)
    have d: "drop (nat idx) buf = buf ! nat idx # drop (nat (idx + 1)) buf"
      using True "1.prems" by (simp add: Cons_nth_drop_Suc nat_add_distrib)
    have "iter_q_loop ro buf (if ro then idx - 1 else idx + 1) (result @ [buf ! nat idx])
          = Inr ((result @ [buf ! nat idx])
                 @ drop (nat (if ro then idx - 1 else idx + 1)) buf)"
      using True "1.prems" g by (intro "1.IH") simp_all
    then show ?thesis
      using True "1.prems" g d by (subst iter_q_loop.simps) simp
  next
    case False
    then show ?thesis using "1.prems" by (subst iter_q_loop.simps) simp
  qed
qed

lemma iter_q_loop_backward_gen:
  "ro \<Longrightarrow> - 1 \<le> idx \<Longrightarrow> idx < int (length buf) \<Longrightarrow>
   iter_q_loop ro buf idx result = Inr (result @ rev (take (nat (idx + 1)) buf))"
proof (induction ro buf idx result rule: iter_q_loop.induct)
  case (1 ro buf idx result)
  show ?case
  proof (cases "0 \<le> idx")
    case True
    have g: "getitem buf idx = Inr (buf ! nat idx)"
      using True "1.prems" by (simp add: getitem_in_range)
    have t: "take (nat (idx + 1)) buf = take (nat idx) buf @ [buf ! nat idx]"
      using True "1.prems" by (simp add: take_Suc_conv_app_nth nat_add_distrib)
    have "iter_q_loop ro buf (if ro then idx - 1 else idx + 1) (result @ [buf ! nat idx])
          = Inr ((result @ [buf ! nat idx])
                 @ rev (take (nat ((if ro then idx - 1 else idx + 1) + 1)) buf))"
      using True "1.prems" g by (intro "1.IH") simp_all
    then show ?thesis
      using True "1.prems" g t by (subst iter_q_loop.simps) simp
  next
    case False
    then have "idx = - 1" using "1.prems" by simp
    then show ?thesis using "1.prems" by (subst iter_q_loop.simps) simp
  qed
qed

lemma iter_q_hybrid:
  "iter_q c True = (Inr (if reverse_order c then rev (buffer c) else buffer c), c)"
proof (cases "reverse_order c")
  case True
  then show ?thesis
    using iter_q_loop_backward_gen [of True "int (length (buffer c)) - 1" "buffer c" "[]"]
    by (simp add: iter_q_def)
next
  case False
  then show ?thesis
    using iter_q_loop_forward_gen [of False 0 "buffer c" "[]"]
    by (simp add: iter_q_def)
qed

text \<open>
  Claim C2. For every buffer and both settings of \<open>reverse_order\<close>, the hybrid
  traversal (the \<open>while\<close> loop) and the direct path of \<open>iter_q\<close> return the same
  sequence: the buffer reversed when \<open>reverse_order\<close> is set, the buffer itself
  otherwise. The loop never raises, and neither call changes the collector.
\<close>

theorem iter_q_hybrid_equals_direct:
  "fst (iter_q c True) = fst (iter_q c False)
   \<and> fst (iter_q c True) = Inr (if reverse_order c then rev (buffer c) else buffer c)
   \<and> snd (iter_q c True) = c \<and> snd (iter_q c False) = c"
  by (simp add: iter_q_hybrid) (simp add: iter_q_def)

lemma slice_from_neg:
  "0 < d \<Longrightarrow> slice_from xs (- d) = drop (length xs - min (nat d) (length xs)) xs"
  by (auto simp: slice_from_def slice_bound_def Let_def max_def min_def nat_diff_distrib
      intro!: arg_cong2 [where f = drop])

text \<open>
  Claim C6. \<open>fetch\<close> returns the empty list when \<open>depth \<le> 0\<close> or the buffer is
  empty; with \<open>reverse_order\<close> set and \<open>depth > 0\<close> it returns the last
  \<open>min depth M\<close> elements of a buffer of size \<open>M\<close>, in buffer order; it never changes
  the collector.
\<close>

theorem fetch_returns_suffix:
  "(depth \<le> 0 \<or> buffer c = [] \<longrightarrow> fst (fetch c depth) = [])
   \<and> (reverse_order c \<and> 0 < depth \<longrightarrow>
        fst (fetch c depth)
          = drop (length (buffer c) - min (nat depth) (length (buffer c))) (buffer c)
        \<and> length (fst (fetch c depth)) = min (nat depth) (length (buffer c)))
   \<and> snd (fetch c depth) = c"
  by (auto simp: fetch_def slice_from_neg)

theorem fetch_returns_suffix_witness:
  "fst (fetch sample_collector 2) = [JInt 2, JInt 3]
   \<and> fst (fetch sample_collector 0) = []
   \<and> fst (fetch (sample_collector\<lparr>buffer := []\<rparr>) 5) = []
   \<and> snd (fetch sample_collector 2) = sample_collector"
  using fetch_returns_suffix [of 2 sample_collector]
        fetch_returns_suffix [of 0 sample_collector]
        fetch_returns_suffix [of 5 "sample_collector\<lparr>buffer := []\<rparr>"]
  by (simp add: sample_collector_def)

lemma str_exc_JSONDecodeError_nonempty:
  "is_JSONDecodeError e \<Longrightarrow> str_exc e \<noteq> []"
  by (cases e) (simp_all add: U_def)

lemma split_on_absent: "c \<notin> set s \<Longrightarrow> split_on c s = [s]"
  by (induction s) auto

lemma index_of_absent: "x \<notin> set s \<Longrightarrow> index_of (x # sub) s = None"
  by (induction s) auto

lemma strip_comments_plain:
  "10 \<notin> set s \<Longrightarrow> 47 \<notin> set s \<Longrightarrow> strip_comments c s = s"
proof -
  assume a: "10 \<notin> set s" and b: "47 \<notin> set s"
  have u: "U ''//'' = [47, 47]" by (simp add: U_def)
  show ?thesis
    by (simp add: strip_comments_def split_on_absent [OF a] strip_line_def u
          index_of_absent [OF b])
qed

text \<open>
  Claim C5, as the code has it. Let the decoder raise \<open>e\<close> on the (comment-stripped)
  text. If \<open>e\<close> is a \<open>JSONDecodeError\<close>: in tolerant mode \<open>collect\<close> returns \<open>True\<close> and
  appends exactly one entry, whose \<open>partial_state\<close> is the original text and whose
  \<open>error\<close> is the non-empty message of \<open>e\<close>; in strict mode it returns \<open>False\<close> and the
  collector is unchanged. If \<open>e\<close> is any other exception, \<open>collect\<close> raises \<open>e\<close> in
  either mode and nothing is appended.
\<close>

theorem collect_parse_failure:
  assumes "loads (strip_comments c s) = Inl e"
  shows "(is_JSONDecodeError e \<longrightarrow>
            (\<not> strict_mode c \<longrightarrow>
               collect loads c (Text s)
                 = Inr (True, c\<lparr>buffer := buffer c @
                          [JObj [(U ''partial_state'', JStr s),
                                 (U ''error'', JStr (str_exc e))]]\<rparr>)
               \<and> str_exc e \<noteq> [])
            \<and> (strict_mode c \<longrightarrow> collect loads c (Text s) = Inr (False, c)))
         \<and> (\<not> is_JSONDecodeError e \<longrightarrow> collect loads c (Text s) = Inl e)"
  using assms by (simp add: collect_def str_exc_JSONDecodeError_nonempty)

theorem collect_parse_failure_witness:
  "collect sample_loads FloJsonOutputCollector_init (Text (U ''{bad json''))
     = Inr (True, FloJsonOutputCollector_init\<lparr>buffer :=
              [JObj [(U ''partial_state'', JStr (U ''{bad json'')),
                     (U ''error'',
                      JStr (U ''Expecting property name enclosed in double quotes: line 1 column 2 (char 1)''))]]\<rparr>)
   \<and> collect sample_loads (FloJsonOutputCollector_init\<lparr>strict_mode := True\<rparr>)
         (Text (U ''{bad json''))
     = Inr (False, FloJsonOutputCollector_init\<lparr>strict_mode := True\<rparr>)
   \<and> collect recursion_limit_loads (FloJsonOutputCollector_init\<lparr>strict_mode := True\<rparr>)
         (Text (replicate 100000 91))
     = Inl (OtherException
         (U ''maximum recursion depth exceeded while decoding a JSON array from a unicode string''))"
proof -
  let ?e = "JSONDecodeError (U ''Expecting property name enclosed in double quotes'') 1 2 1"
  let ?r = "OtherException
         (U ''maximum recursion depth exceeded while decoding a JSON array from a unicode string'')"
  have s: "strip_comments c (U ''{bad json'') = U ''{bad json''" for c
    by (simp add: strip_comments_def U_def strip_line_def)
  have l: "sample_loads (U ''{bad json'') = Inl ?e"
    by (simp add: sample_loads_def U_def)
  have m: "str_exc ?e
           = U ''Expecting property name enclosed in double quotes: line 1 column 2 (char 1)''"
    by (simp add: U_def str_nat.simps)
  have b: "buffer FloJsonOutputCollector_init = []"
    "\<not> strict_mode FloJsonOutputCollector_init"
    by (simp_all add: FloJsonOutputCollector_init_def)
  have d: "recursion_limit_loads (strip_comments c (replicate 100000 91)) = Inl ?r" for c
    by (simp add: strip_comments_plain recursion_limit_loads_def)
  show ?thesis
    using collect_parse_failure [of sample_loads FloJsonOutputCollector_init "U ''{bad json''" ?e]
          collect_parse_failure [of sample_loads "FloJsonOutputCollector_init\<lparr>strict_mode := True\<rparr>"
             "U ''{bad json''" ?e]
          collect_parse_failure [of recursion_limit_loads
             "FloJsonOutputCollector_init\<lparr>strict_mode := True\<rparr>" "replicate 100000 91" ?r]
    unfolding m by (simp add: s l b d)
qed

text \<open>
  Claim C5 as stated fails: the text of 100000 opening brackets fails parsing with
  \<open>RecursionError\<close>, and tolerant \<open>collect\<close> raises it instead of returning \<open>True\<close>
  with a degraded entry.
\<close>

theorem collect_other_exception_counterexample:
  "recursion_limit_loads (strip_comments FloJsonOutputCollector_init (replicate 100000 91))
     = Inl (OtherException
         (U ''maximum recursion depth exceeded while decoding a JSON array from a unicode string''))
   \<and> \<not> strict_mode FloJsonOutputCollector_init
   \<and> collect recursion_limit_loads FloJsonOutputCollector_init (Text (replicate 100000 91))
     = Inl (OtherException
         (U ''maximum recursion depth exceeded while decoding a JSON array from a unicode string''))"
  by (simp add: collect_def strip_comments_plain recursion_limit_loads_def
        FloJsonOutputCollector_init_def)

text \<open>
  Claim C9. The text \<open>{"url": "http://x"}\<close> is valid JSON, yet with \<open>comment_strip\<close>
  set the decoder is handed \<open>{"url": "http:\<close>, the line cut at the first \<open>//\<close>. Given
  the decoder's answers on these two texts, tolerant \<open>collect\<close> appends the degraded
  record and not the parsed object, which it does append once \<open>comment_strip\<close> is off.
\<close>

theorem comment_strip_breaks_valid_json:
  assumes "loads (U ''{\"url\": \"http://x\"}'') = Inr (JObj [(U ''url'', JStr (U ''http://x''))])"
      and "loads (U ''{\"url\": \"http:'') = Inl e" and "is_JSONDecodeError e"
      and "comment_strip c" and "\<not> strict_mode c"
  shows "collect loads c (Text (U ''{\"url\": \"http://x\"}''))
           = Inr (True, c\<lparr>buffer := buffer c @
                    [JObj [(U ''partial_state'', JStr (U ''{\"url\": \"http://x\"}'')),
                           (U ''error'', JStr (str_exc e))]]\<rparr>)
         \<and> JObj [(U ''partial_state'', JStr (U ''{\"url\": \"http://x\"}'')),
                 (U ''error'', JStr (str_exc e))]
             \<noteq> JObj [(U ''url'', JStr (U ''http://x''))]
         \<and> collect loads (c\<lparr>comment_strip := False\<rparr>) (Text (U ''{\"url\": \"http://x\"}''))
           = Inr (True, c\<lparr>comment_strip := False,
                          buffer := buffer c @ [JObj [(U ''url'', JStr (U ''http://x''))]]\<rparr>)"
proof -
  have s: "strip_comments c (U ''{\"url\": \"http://x\"}'') = U ''{\"url\": \"http:''"
    using assms(4) by (simp add: strip_comments_def U_def strip_line_def)
  have n: "strip_comments (c\<lparr>comment_strip := False\<rparr>) t = t" for t
    by (simp add: strip_comments_def)
  show ?thesis
    using assms by (simp add: collect_def s n)
qed

theorem comment_strip_breaks_valid_json_witness:
  "collect sample_loads FloJsonOutputCollector_init (Text (U ''{\"url\": \"http://x\"}''))
     = Inr (True, FloJsonOutputCollector_init\<lparr>buffer :=
              [JObj [(U ''partial_state'', JStr (U ''{\"url\": \"http://x\"}'')),
                     (U ''error'',
                      JStr (U ''Unterminated string starting at: line 1 column 9 (char 8)''))]]\<rparr>)"
proof -
  let ?e = "JSONDecodeError (U ''Unterminated string starting at'') 1 9 8"
  have l: "sample_loads (U ''{\"url\": \"http://x\"}'') = Inr (JObj [(U ''url'', JStr (U ''http://x''))])"
    "sample_loads (U ''{\"url\": \"http:'') = Inl ?e"
    by (simp_all add: sample_loads_def U_def)
  have m: "str_exc ?e = U ''Unterminated string starting at: line 1 column 9 (char 8)''"
    by (simp add: U_def str_nat.simps)
  have b: "buffer FloJsonOutputCollector_init = []"
    "\<not> strict_mode FloJsonOutputCollector_init" "comment_strip FloJsonOutputCollector_init"
    by (simp_all add: FloJsonOutputCollector_init_def)
  show ?thesis
    using comment_strip_breaks_valid_json [of sample_loads ?e FloJsonOutputCollector_init]
    unfolding m by (simp add: l b)
qed

section \<open>Properties of the engine\<close>

lemma target_neq:
  "U ''/app/data/qinfinity_memory.json'' \<noteq> U ''/mnt/data/qinfinity_memory.json''"
  by (simp add: U_def)

lemma write_targets_two:
  "write_targets h doc [p, q] e =
     (case open_w h (clock e) p of
        Some ex \<Rightarrow> (Some ex, e\<lparr>effects := effects e @ [OpenWrite p], clock := Suc (clock e)\<rparr>)
      | None \<Rightarrow>
          (case json_dump h (Suc (clock e)) p doc of
             Some ex \<Rightarrow>
               (Some ex, e\<lparr>effects := effects e @ [OpenWrite p, JsonDump p doc],
                           clock := Suc (Suc (clock e))\<rparr>)
           | None \<Rightarrow>
               (case open_w h (Suc (Suc (clock e))) q of
                  Some ex \<Rightarrow>
                    (Some ex, e\<lparr>effects := effects e @ [OpenWrite p, JsonDump p doc, OpenWrite q],
                                clock := Suc (Suc (Suc (clock e)))\<rparr>)
                | None \<Rightarrow>
                    (case json_dump h (Suc (Suc (Suc (clock e)))) q doc of
                       Some ex \<Rightarrow>
                         (Some ex,
                          e\<lparr>effects := effects e @ [OpenWrite p, JsonDump p doc, OpenWrite q,
                                                     JsonDump q doc],
                            clock := Suc (Suc (Suc (Suc (clock e))))\<rparr>)
                     | None \<Rightarrow>
                         (None,
                          e\<lparr>effects := effects e @ [OpenWrite p, JsonDump p doc, OpenWrite q,
                                                     JsonDump q doc],
                            clock := Suc (Suc (Suc (Suc (clock e))))\<rparr>)))))"
  by (simp add: Let_def split: option.splits)

lemma commit_memory_snapshot_unfold:
  "commit_memory_snapshot h e =
     (let doc = snapshot_data h e;
          p = U ''/mnt/data/qinfinity_memory.json'';
          q = U ''/app/data/qinfinity_memory.json'';
          t = clock e
      in if open_w h (t + 1) p \<noteq> None then
           (False, e\<lparr>effects := effects e @ [OpenWrite p], clock := t + 2\<rparr>)
         else if json_dump h (t + 2) p doc \<noteq> None then
           (False, e\<lparr>effects := effects e @ [OpenWrite p, JsonDump p doc], clock := t + 3\<rparr>)
         else if open_w h (t + 3) q \<noteq> None then
           (False, e\<lparr>effects := effects e @ [OpenWrite p, JsonDump p doc, OpenWrite q],
                     clock := t + 4\<rparr>)
         else
           (json_dump h (t + 4) q doc = None,
            e\<lparr>effects := effects e @ [OpenWrite p, JsonDump p doc, OpenWrite q, JsonDump q doc],
              clock := t + 5\<rparr>))"
  by (auto simp: commit_memory_snapshot_def snapshot_targets_def write_targets_two Let_def
        eval_nat_numeral split: option.splits)

lemma commit_keeps_fields:
  "memory_lines (snd (commit_memory_snapshot h e)) = memory_lines e"
  "breath_cycle_count (snd (commit_memory_snapshot h e)) = breath_cycle_count e"
  "is_running (snd (commit_memory_snapshot h e)) = is_running e"
  "collector (snd (commit_memory_snapshot h e)) = collector e"
  by (simp_all add: commit_memory_snapshot_unfold Let_def)

lemma commit_counts_once:
  "snapshot_commits (effects (snd (commit_memory_snapshot h e)))
     = Suc (snapshot_commits (effects e))"
  by (simp add: commit_memory_snapshot_unfold Let_def snapshot_commits_def target_neq)

lemma breath_tick_steps:
  "breath_tick h e =
     (if (breath_cycle_count e + 1) mod 10 = 0
      then snd (commit_memory_snapshot h (after_append h e))
      else after_append h e)"
  by (simp add: breath_tick_def Let_def persist_memory_line_def after_append_def breath_line_def)

lemma breath_tick_fields:
  "breath_cycle_count (breath_tick h e) = breath_cycle_count e + 1"
  "is_running (breath_tick h e) = is_running e"
  "memory_lines (breath_tick h e) = memory_lines e @ [breath_line h e]"
  "collector (breath_tick h e) = collector e"
  by (simp_all add: breath_tick_steps commit_keeps_fields) (simp_all add: after_append_def)

lemma breath_tick_commits:
  "snapshot_commits (effects (breath_tick h e))
     = snapshot_commits (effects e) + (if (breath_cycle_count e + 1) mod 10 = 0 then 1 else 0)"
  by (simp add: breath_tick_steps commit_counts_once)
     (simp add: after_append_def snapshot_commits_def)

lemma div_step: "((c::int) + 1) div 10 - c div 10 = (if (c + 1) mod 10 = 0 then 1 else 0)"
proof -
  define q where "q = c div 10"
  define r where "r = c mod 10"
  have c: "c = 10 * q + r" and r: "0 \<le> r" "r < 10"
    by (simp_all add: q_def r_def)
  show ?thesis
  proof (cases "r = 9")
    case True
    then have "c + 1 = 10 * (q + 1)" using c by simp
    then have "(c + 1) div 10 = q + 1" "(c + 1) mod 10 = 0" by simp_all
    then show ?thesis by (simp add: q_def)
  next
    case False
    then have b: "0 \<le> r + 1" "r + 1 < 10" using r by simp_all
    have e: "c + 1 = 10 * q + (r + 1)" using c by simp
    have "(c + 1) div 10 = q"
      unfolding e using b by (simp add: div_pos_pos_trivial)
    moreover have "(c + 1) mod 10 = r + 1"
      unfolding e using b by (simp add: mod_pos_pos_trivial)
    ultimately show ?thesis using r by (simp add: q_def)
  qed
qed

lemma breath_line_fields:
  "stage (breath_line h e) = U ''breath''"
  "line_semantic_tags (breath_line h e) = [U ''ancestral'']"
  "line_breath_cycle (breath_line h e) = breath_cycle_count e + 1"
  by (simp_all add: breath_line_def new_line_def)

lemma upt_shift: "[1..<Suc (Suc T)] = 1 # map Suc [1..<Suc T]"
  by (simp add: upt_conv_Cons map_Suc_upt del: upt_Suc)

lemma breath_cycle_run:
  "is_running e \<Longrightarrow>
   breath_cycle_count (breath_cycle h T e) = breath_cycle_count e + int T
   \<and> is_running (breath_cycle h T e)
   \<and> collector (breath_cycle h T e) = collector e
   \<and> (\<exists>new. memory_lines (breath_cycle h T e) = memory_lines e @ new
        \<and> length new = T
        \<and> map stage new = replicate T (U ''breath'')
        \<and> map line_semantic_tags new = replicate T [U ''ancestral'']
        \<and> map line_breath_cycle new = map (\<lambda>k. breath_cycle_count e + int k) [1..<Suc T])
   \<and> int (snapshot_commits (effects (breath_cycle h T e)))
       = int (snapshot_commits (effects e))
         + (breath_cycle_count e + int T) div 10 - breath_cycle_count e div 10"
proof (induction T arbitrary: e)
  case 0
  then show ?case by simp
next
  case (Suc T)
  let ?e1 = "breath_tick h e"
  have run: "is_running ?e1" using Suc.prems by (simp add: breath_tick_fields)
  from Suc.IH [OF run] obtain new where
    c: "breath_cycle_count (breath_cycle h T ?e1) = breath_cycle_count ?e1 + int T"
    and r: "is_running (breath_cycle h T ?e1)"
    and k: "collector (breath_cycle h T ?e1) = collector ?e1"
    and m: "memory_lines (breath_cycle h T ?e1) = memory_lines ?e1 @ new"
    and l: "length new = T"
    and p1: "map stage new = replicate T (U ''breath'')"
    and p2: "map line_semantic_tags new = replicate T [U ''ancestral'']"
    and p3: "map line_breath_cycle new
             = map (\<lambda>k. breath_cycle_count ?e1 + int k) [1..<Suc T]"
    and s: "int (snapshot_commits (effects (breath_cycle h T ?e1)))
            = int (snapshot_commits (effects ?e1))
              + (breath_cycle_count ?e1 + int T) div 10 - breath_cycle_count ?e1 div 10"
    by blast
  have step: "breath_cycle h (Suc T) e = breath_cycle h T ?e1"
    using Suc.prems by simp
  have lines: "memory_lines (breath_cycle h (Suc T) e) = memory_lines e @ (breath_line h e # new)"
    using m step by (simp add: breath_tick_fields)
  have q3: "map line_breath_cycle (breath_line h e # new)
            = map (\<lambda>k. breath_cycle_count e + int k) [1..<Suc (Suc T)]"
    unfolding upt_shift using p3
    by (simp add: breath_line_fields breath_tick_fields comp_def add.assoc add.commute
          del: upt_Suc)
  have commits: "int (snapshot_commits (effects (breath_cycle h (Suc T) e)))
       = int (snapshot_commits (effects e))
         + (breath_cycle_count e + int (Suc T)) div 10 - breath_cycle_count e div 10"
  proof -
    define c where "c = breath_cycle_count e"
    have c1: "breath_cycle_count ?e1 = c + 1"
      by (simp add: breath_tick_fields c_def)
    have t: "int (snapshot_commits (effects ?e1))
             = int (snapshot_commits (effects e)) + ((c + 1) div 10 - c div 10)"
      unfolding div_step by (simp add: breath_tick_commits c_def)
    have a: "c + 1 + int T = c + int (Suc T)" by simp
    have "int (snapshot_commits (effects (breath_cycle h T ?e1)))
          = int (snapshot_commits (effects e)) + ((c + 1) div 10 - c div 10)
            + (c + int (Suc T)) div 10 - (c + 1) div 10"
      using s unfolding c1 t a .
    then show ?thesis
      unfolding step c_def by linarith
  qed
  have cnt: "breath_cycle_count (breath_cycle h (Suc T) e) = breath_cycle_count e + int (Suc T)"
    using c step by (simp add: breath_tick_fields)
  have rest: "is_running (breath_cycle h (Suc T) e)"
    "collector (breath_cycle h (Suc T) e) = collector e"
    using r k step by (simp_all add: breath_tick_fields)
  have ex: "\<exists>new. memory_lines (breath_cycle h (Suc T) e) = memory_lines e @ new
        \<and> length new = Suc T
        \<and> map stage new = replicate (Suc T) (U ''breath'')
        \<and> map line_semantic_tags new = replicate (Suc T) [U ''ancestral'']
        \<and> map line_breath_cycle new
            = map (\<lambda>k. breath_cycle_count e + int k) [1..<Suc (Suc T)]"
    using lines l p1 p2 q3
    by (intro exI [of _ "breath_line h e # new"]) (simp add: breath_line_fields del: upt_Suc)
  show ?case
    using cnt rest ex commits by blast
qed

lemma bootstrap_loop_spec:
  "is_running (bootstrap_loop h reel e) = is_running e
   \<and> breath_cycle_count (bootstrap_loop h reel e) = breath_cycle_count e
   \<and> semantic_tags (bootstrap_loop h reel e) = semantic_tags e
   \<and> collector (bootstrap_loop h reel e) = collector e
   \<and> (\<exists>new. memory_lines (bootstrap_loop h reel e) = memory_lines e @ new
        \<and> effects (bootstrap_loop h reel e) = effects e @ map (\<lambda>l. InsertOne (to_dict l)) new
        \<and> map stage new = map (\<lambda>sd. dict_get (reel_stage sd) []) reel
        \<and> map state new = map (\<lambda>sd. dict_get (reel_state sd) []) reel
        \<and> map identity new = map (\<lambda>sd. dict_get (reel_identity sd) []) reel
        \<and> map memory new = map (\<lambda>sd. dict_get (reel_memory sd) []) reel
        \<and> map line_semantic_tags new = replicate (length reel) (semantic_tags e))"
proof (induction reel arbitrary: e)
  case Nil
  show ?case by simp
next
  case (Cons sd rest)
  define ml where "ml = new_line h (clock e)
              (dict_get (reel_stage sd) [])
              (dict_get (reel_state sd) [])
              (dict_get (reel_identity sd) [])
              (dict_get (reel_memory sd) [])
              (semantic_tags e)
              0"
  define e2 where "e2 = persist_memory_line ml
      (e\<lparr>memory_lines := memory_lines e @ [ml], clock := Suc (clock e)\<rparr>)"
  have step: "bootstrap_loop h (sd # rest) e = bootstrap_loop h rest e2"
    by (simp add: Let_def ml_def e2_def)
  have f: "is_running e2 = is_running e" "breath_cycle_count e2 = breath_cycle_count e"
    "semantic_tags e2 = semantic_tags e" "collector e2 = collector e"
    "memory_lines e2 = memory_lines e @ [ml]"
    "effects e2 = effects e @ [InsertOne (to_dict ml)]"
    by (simp_all add: e2_def persist_memory_line_def)
  have g: "stage ml = dict_get (reel_stage sd) []" "state ml = dict_get (reel_state sd) []"
    "identity ml = dict_get (reel_identity sd) []" "memory ml = dict_get (reel_memory sd) []"
    "line_semantic_tags ml = semantic_tags e"
    by (simp_all add: ml_def new_line_def)
  from Cons.IH [of e2] obtain new where
    ih: "is_running (bootstrap_loop h rest e2) = is_running e2"
      "breath_cycle_count (bootstrap_loop h rest e2) = breath_cycle_count e2"
      "semantic_tags (bootstrap_loop h rest e2) = semantic_tags e2"
      "collector (bootstrap_loop h rest e2) = collector e2"
    and n: "memory_lines (bootstrap_loop h rest e2) = memory_lines e2 @ new"
      "effects (bootstrap_loop h rest e2) = effects e2 @ map (\<lambda>l. InsertOne (to_dict l)) new"
      "map stage new = map (\<lambda>sd. dict_get (reel_stage sd) []) rest"
      "map state new = map (\<lambda>sd. dict_get (reel_state sd) []) rest"
      "map identity new = map (\<lambda>sd. dict_get (reel_identity sd) []) rest"
      "map memory new = map (\<lambda>sd. dict_get (reel_memory sd) []) rest"
      "map line_semantic_tags new = replicate (length rest) (semantic_tags e2)"
    by blast
  have ex: "\<exists>new. memory_lines (bootstrap_loop h (sd # rest) e) = memory_lines e @ new
        \<and> effects (bootstrap_loop h (sd # rest) e)
            = effects e @ map (\<lambda>l. InsertOne (to_dict l)) new
        \<and> map stage new = map (\<lambda>sd. dict_get (reel_stage sd) []) (sd # rest)
        \<and> map state new = map (\<lambda>sd. dict_get (reel_state sd) []) (sd # rest)
        \<and> map identity new = map (\<lambda>sd. dict_get (reel_identity sd) []) (sd # rest)
        \<and> map memory new = map (\<lambda>sd. dict_get (reel_memory sd) []) (sd # rest)
        \<and> map line_semantic_tags new = replicate (length (sd # rest)) (semantic_tags e)"
    unfolding step using n f g by (intro exI [of _ "ml # new"]) simp
  show ?case
    using ex ih f unfolding step by simp
qed

lemma start_runtime_running:
  "is_running (start_runtime h e)"
  "breath_cycle_count (start_runtime h e) = breath_cycle_count e"
  using bootstrap_loop_spec [of h "memory_reel (e\<lparr>is_running := True\<rparr>)" "e\<lparr>is_running := True\<rparr>"]
  by (simp_all add: start_runtime_def bootstrap_memory_def Let_def)

text \<open>
  Claim C3. From a running engine whose counter is 0, after \<open>T\<close> iterations of the
  breath loop: \<open>breath_cycle_count\<close> is \<open>T\<close>; exactly \<open>T\<close> records were appended behind
  the records already in the ledger, each with stage \<open>breath\<close> and the single tag
  \<open>ancestral\<close>, the \<open>i\<close>-th carrying cycle index \<open>i\<close>; and the committer was invoked
  \<open>T div 10\<close> more times (so at least \<open>T div 10\<close> times). The last conjunct is the order
  of the steps of one tick in any state \<open>s\<close>: the conditional commit acts on the state in
  which the counter is incremented, the record built from the incremented counter is
  appended, and that record has been handed to \<open>insert_one\<close>.
\<close>

theorem breath_cycle_after_ticks:
  assumes "is_running e" and "breath_cycle_count e = 0"
  shows "breath_cycle_count (breath_cycle h T e) = int T
     \<and> (\<exists>new. memory_lines (breath_cycle h T e) = memory_lines e @ new
          \<and> length new = T
          \<and> map stage new = replicate T (U ''breath'')
          \<and> map line_semantic_tags new = replicate T [U ''ancestral'']
          \<and> map line_breath_cycle new = map int [1..<Suc T])
     \<and> snapshot_commits (effects (breath_cycle h T e))
         = snapshot_commits (effects e) + T div 10
     \<and> T div 10 \<le> snapshot_commits (effects (breath_cycle h T e))
     \<and> breath_tick h s
         = (if (breath_cycle_count s + 1) mod 10 = 0
            then snd (commit_memory_snapshot h (after_append h s))
            else after_append h s)"
proof -
  note run = breath_cycle_run [OF assms(1), of h T]
  have a: "breath_cycle_count (breath_cycle h T e) = int T"
    using run assms(2) by simp
  have b: "\<exists>new. memory_lines (breath_cycle h T e) = memory_lines e @ new
          \<and> length new = T
          \<and> map stage new = replicate T (U ''breath'')
          \<and> map line_semantic_tags new = replicate T [U ''ancestral'']
          \<and> map line_breath_cycle new = map int [1..<Suc T]"
    using run unfolding assms(2) by simp
  have "int (snapshot_commits (effects (breath_cycle h T e)))
        = int (snapshot_commits (effects e) + T div 10)"
    using run unfolding assms(2) by (simp add: zdiv_int)
  then have c: "snapshot_commits (effects (breath_cycle h T e))
                = snapshot_commits (effects e) + T div 10"
    by (simp only: int_int_eq)
  show ?thesis
    using a b c by (simp add: breath_tick_steps)
qed

theorem breath_cycle_after_ticks_witness:
  "breath_cycle_count (breath_cycle sample_host 20 (start_runtime sample_host sample_engine)) = 20
   \<and> snapshot_commits
        (effects (breath_cycle sample_host 20 (start_runtime sample_host sample_engine)))
       = snapshot_commits (effects (start_runtime sample_host sample_engine)) + 2"
proof -
  have r: "is_running (start_runtime sample_host sample_engine)"
    by (rule start_runtime_running)
  have z: "breath_cycle_count (start_runtime sample_host sample_engine) = 0"
    by (simp add: start_runtime_running sample_engine_def PandoraMemoryEngine_init_def)
  show ?thesis
    using breath_cycle_after_ticks [OF r z, of sample_host 20] by simp
qed

text \<open>
  Claim C7. \<open>bootstrap_memory\<close> appends one record per stage descriptor of the reel, in
  reel order; \<open>stage\<close>, \<open>state\<close>, \<open>identity\<close> and \<open>memory\<close> are those of the descriptor
  (the empty default for a key the descriptor lacks), and every record carries the
  default tag vocabulary. Each record is handed to \<open>insert_one\<close> in the same order.
\<close>

theorem bootstrap_memory_follows_reel:
  assumes "semantic_tags e = [U ''ancestral'', U ''emotional'', U ''symbolic'']"
  shows "\<exists>new. memory_lines (bootstrap_memory h e) = memory_lines e @ new
        \<and> length new = length (memory_reel e)
        \<and> map stage new = map (\<lambda>sd. dict_get (reel_stage sd) []) (memory_reel e)
        \<and> map state new = map (\<lambda>sd. dict_get (reel_state sd) []) (memory_reel e)
        \<and> map identity new = map (\<lambda>sd. dict_get (reel_identity sd) []) (memory_reel e)
        \<and> map memory new = map (\<lambda>sd. dict_get (reel_memory sd) []) (memory_reel e)
        \<and> map line_semantic_tags new
            = replicate (length (memory_reel e))
                [U ''ancestral'', U ''emotional'', U ''symbolic'']
        \<and> effects (bootstrap_memory h e) = effects e @ map (\<lambda>l. InsertOne (to_dict l)) new"
proof -
  from bootstrap_loop_spec [of h "memory_reel e" e] obtain new where
    n: "memory_lines (bootstrap_loop h (memory_reel e) e) = memory_lines e @ new"
      "effects (bootstrap_loop h (memory_reel e) e)
         = effects e @ map (\<lambda>l. InsertOne (to_dict l)) new"
      "map stage new = map (\<lambda>sd. dict_get (reel_stage sd) []) (memory_reel e)"
      "map state new = map (\<lambda>sd. dict_get (reel_state sd) []) (memory_reel e)"
      "map identity new = map (\<lambda>sd. dict_get (reel_identity sd) []) (memory_reel e)"
      "map memory new = map (\<lambda>sd. dict_get (reel_memory sd) []) (memory_reel e)"
      "map line_semantic_tags new = replicate (length (memory_reel e)) (semantic_tags e)"
    by blast
  have "length new = length (memory_reel e)"
    using n(3) by (metis length_map)
  then show ?thesis
    using n assms unfolding bootstrap_memory_def by (intro exI [of _ new]) simp
qed

theorem bootstrap_memory_follows_reel_witness:
  "map stage (memory_lines (bootstrap_memory sample_host sample_engine))
     = [U ''genesis'', U ''awakening'']
   \<and> map state (memory_lines (bootstrap_memory sample_host sample_engine))
     = [U ''seed'', []]
   \<and> map memory (memory_lines (bootstrap_memory sample_host sample_engine))
     = [[U ''first light''], []]
   \<and> map line_semantic_tags (memory_lines (bootstrap_memory sample_host sample_engine))
     = [[U ''ancestral'', U ''emotional'', U ''symbolic''],
        [U ''ancestral'', U ''emotional'', U ''symbolic'']]"
proof -
  have t: "semantic_tags sample_engine = [U ''ancestral'', U ''emotional'', U ''symbolic'']"
    by (simp add: sample_engine_def PandoraMemoryEngine_init_def)
  have m: "memory_lines sample_engine = []" "memory_reel sample_engine = sample_reel"
    by (simp_all add: sample_engine_def PandoraMemoryEngine_init_def)
  show ?thesis
    using bootstrap_memory_follows_reel [OF t, of sample_host]
    unfolding m by (auto simp: sample_reel_def dict_get_def numeral_2_eq_2)
qed

lemma U_eq_iff: "U a = U b \<longleftrightarrow> a = b"
  unfolding U_def by (rule inj_map_eq_map) (rule inj_of_char)

text \<open>
  Claim C1, as the code has it. The two targets are written in order inside a single
  \<open>try\<close>: the first exception ends the loop, so the second target is attempted only
  when both the open and the dump of the first succeeded. The call never raises; it
  returns \<open>True\<close> exactly when all four file operations succeed, and \<open>False\<close> after any
  exception.
\<close>

theorem commit_memory_snapshot_stops_at_first_failure:
  "fst (commit_memory_snapshot h e)
     = (open_w h (clock e + 1) (U ''/mnt/data/qinfinity_memory.json'') = None
        \<and> json_dump h (clock e + 2) (U ''/mnt/data/qinfinity_memory.json'')
              (snapshot_data h e) = None
        \<and> open_w h (clock e + 3) (U ''/app/data/qinfinity_memory.json'') = None
        \<and> json_dump h (clock e + 4) (U ''/app/data/qinfinity_memory.json'')
              (snapshot_data h e) = None)
   \<and> effects (snd (commit_memory_snapshot h e))
     = effects e @
       OpenWrite (U ''/mnt/data/qinfinity_memory.json'') #
       (if open_w h (clock e + 1) (U ''/mnt/data/qinfinity_memory.json'') \<noteq> None then []
        else JsonDump (U ''/mnt/data/qinfinity_memory.json'') (snapshot_data h e) #
          (if json_dump h (clock e + 2) (U ''/mnt/data/qinfinity_memory.json'')
                (snapshot_data h e) \<noteq> None then []
           else OpenWrite (U ''/app/data/qinfinity_memory.json'') #
             (if open_w h (clock e + 3) (U ''/app/data/qinfinity_memory.json'') \<noteq> None then []
              else [JsonDump (U ''/app/data/qinfinity_memory.json'') (snapshot_data h e)])))"
  by (simp add: commit_memory_snapshot_unfold Let_def)

text \<open>
  Claim C1 as stated fails: when \<open>/mnt/data\<close> cannot be opened, the commit returns
  \<open>False\<close> and the only file operation attempted is the open of the first target; the
  second target is never attempted.
\<close>

theorem commit_first_target_failure_counterexample:
  "open_w mnt_unwritable_host 1 (U ''/mnt/data/qinfinity_memory.json'') \<noteq> None
   \<and> fst (commit_memory_snapshot mnt_unwritable_host sample_engine) = False
   \<and> effects (snd (commit_memory_snapshot mnt_unwritable_host sample_engine))
       = [OpenWrite (U ''/mnt/data/qinfinity_memory.json'')]"
  by (simp add: commit_memory_snapshot_unfold Let_def mnt_unwritable_host_def
        sample_engine_def PandoraMemoryEngine_init_def)

theorem commit_memory_snapshot_witness:
  "fst (commit_memory_snapshot sample_host sample_engine)
   \<and> length (effects (snd (commit_memory_snapshot sample_host sample_engine))) = 4"
  using commit_memory_snapshot_stops_at_first_failure [of sample_host sample_engine]
  by (simp add: sample_host_def sample_engine_def PandoraMemoryEngine_init_def)






lemma last_ten:
  "(if 10 < length xs then slice_from xs (- 10) else xs) = drop (length xs - 10) xs"
  using slice_from_neg [of 10 xs] by (simp add: min_def)

lemma introspective_traversal_closed_form:
  "introspective_traversal h query e
     = Inr (JObj [(U ''query'', JStr query),
                  (U ''traversal_items'', JInt (int (length (buffer (collector e))))),
                  (U ''memory_line_id'', JStr (uuid4 h (clock e))),
                  (U ''breath_cycle'', JInt (breath_cycle_count e)),
                  (U ''results'',
                     JArr (drop (length (buffer (collector e)) - 10)
                             (if reverse_order (collector e) then rev (buffer (collector e))
                              else buffer (collector e))))],
            e\<lparr>memory_lines := memory_lines e @
                 [new_line h (clock e) (U ''introspection'') (U ''traversal_active'')
                    (U ''flo_core.mirror'')
                    [U ''Query: '' @ query,
                     U ''Traversed '' @ str_int (int (length (buffer (collector e))))
                       @ U '' items'',
                     U ''Marshmallow logic applied'']
                    [U ''emotional'', U ''symbolic'']
                    (breath_cycle_count e)],
              clock := Suc (clock e),
              effects := effects e @
                 [InsertOne (to_dict
                    (new_line h (clock e) (U ''introspection'') (U ''traversal_active'')
                       (U ''flo_core.mirror'')
                       [U ''Query: '' @ query,
                        U ''Traversed '' @ str_int (int (length (buffer (collector e))))
                          @ U '' items'',
                        U ''Marshmallow logic applied'']
                       [U ''emotional'', U ''symbolic'']
                       (breath_cycle_count e)))]\<rparr>)"
proof -
  define tr where "tr = (if reverse_order (collector e) then rev (buffer (collector e))
                         else buffer (collector e))"
  have it: "iter_q (collector e) True = (Inr tr, collector e)"
    by (simp add: iter_q_hybrid tr_def)
  have len: "length tr = length (buffer (collector e))"
    by (simp add: tr_def)
  note res = last_ten [of tr, unfolded len]
  show ?thesis
    unfolding introspective_traversal_def it
    by (simp add: Let_def res len persist_memory_line_def tr_def [symmetric])
       (simp add: new_line_def)
qed

text \<open>With \<open>reverse_order\<close> set the traversal runs from the newest entry to the oldest,
  so its last ten items are the ten oldest buffer entries, newest of them first.\<close>

lemma last_ten_of_reversed: "drop (length xs - 10) (rev xs) = rev (take 10 xs)"
  by (cases "length xs \<le> 10") (simp_all add: drop_rev)

text \<open>
  Claim C8, as the code has it. \<open>introspective_traversal\<close> never raises. It appends
  exactly one record, with stage \<open>introspection\<close> and tags \<open>emotional\<close> and \<open>symbolic\<close>,
  hands it to \<open>insert_one\<close>, leaves the buffer as it was, and returns the query, the
  number of traversed items, the id of the new record, the current
  \<open>breath_cycle_count\<close> and the last ten items of the traversal (all of them when
  there are at most ten): with \<open>reverse_order\<close> set, the ten oldest buffer entries,
  newest of them first; otherwise the ten newest buffer entries in buffer order.
\<close>

theorem introspective_traversal_summary:
  "\<exists>ml e'.
     introspective_traversal h query e
       = Inr (JObj [(U ''query'', JStr query),
                    (U ''traversal_items'', JInt (int (length (buffer (collector e))))),
                    (U ''memory_line_id'', JStr (line_id ml)),
                    (U ''breath_cycle'', JInt (breath_cycle_count e)),
                    (U ''results'',
                       JArr (if reverse_order (collector e)
                             then rev (take 10 (buffer (collector e)))
                             else drop (length (buffer (collector e)) - 10)
                                    (buffer (collector e))))],
              e')
     \<and> memory_lines e' = memory_lines e @ [ml]
     \<and> stage ml = U ''introspection''
     \<and> state ml = U ''traversal_active''
     \<and> identity ml = U ''flo_core.mirror''
     \<and> memory ml = [U ''Query: '' @ query,
                     U ''Traversed '' @ str_int (int (length (buffer (collector e))))
                       @ U '' items'',
                     U ''Marshmallow logic applied'']
     \<and> line_semantic_tags ml = [U ''emotional'', U ''symbolic'']
     \<and> line_breath_cycle ml = breath_cycle_count e
     \<and> effects e' = effects e @ [InsertOne (to_dict ml)]
     \<and> collector e' = collector e
     \<and> breath_cycle_count e' = breath_cycle_count e"
proof -
  define ml where "ml = new_line h (clock e) (U ''introspection'') (U ''traversal_active'')
                    (U ''flo_core.mirror'')
                    [U ''Query: '' @ query,
                     U ''Traversed '' @ str_int (int (length (buffer (collector e))))
                       @ U '' items'',
                     U ''Marshmallow logic applied'']
                    [U ''emotional'', U ''symbolic'']
                    (breath_cycle_count e)"
  define e' where "e' = e\<lparr>memory_lines := memory_lines e @ [ml],
              clock := Suc (clock e),
              effects := effects e @ [InsertOne (to_dict ml)]\<rparr>"
  have id: "line_id ml = uuid4 h (clock e)"
    by (simp add: ml_def new_line_def)
  have res: "drop (length (buffer (collector e)) - 10)
               (if reverse_order (collector e) then rev (buffer (collector e))
                else buffer (collector e))
             = (if reverse_order (collector e)
                then rev (take 10 (buffer (collector e)))
                else drop (length (buffer (collector e)) - 10) (buffer (collector e)))"
    by (simp add: last_ten_of_reversed)
  have "introspective_traversal h query e
       = Inr (JObj [(U ''query'', JStr query),
                    (U ''traversal_items'', JInt (int (length (buffer (collector e))))),
                    (U ''memory_line_id'', JStr (line_id ml)),
                    (U ''breath_cycle'', JInt (breath_cycle_count e)),
                    (U ''results'',
                       JArr (if reverse_order (collector e)
                             then rev (take 10 (buffer (collector e)))
                             else drop (length (buffer (collector e)) - 10)
                                    (buffer (collector e))))],
              e')"
    using id unfolding introspective_traversal_closed_form res e'_def ml_def by simp
  moreover have "memory_lines e' = memory_lines e @ [ml]"
    "effects e' = effects e @ [InsertOne (to_dict ml)]"
    "collector e' = collector e" "breath_cycle_count e' = breath_cycle_count e"
    by (simp_all add: e'_def)
  moreover have "stage ml = U ''introspection''" "state ml = U ''traversal_active''"
    "identity ml = U ''flo_core.mirror''"
    "memory ml = [U ''Query: '' @ query,
                     U ''Traversed '' @ str_int (int (length (buffer (collector e))))
                       @ U '' items'',
                     U ''Marshmallow logic applied'']"
    "line_semantic_tags ml = [U ''emotional'', U ''symbolic'']"
    "line_breath_cycle ml = breath_cycle_count e"
    by (simp_all add: ml_def new_line_def)
  ultimately show ?thesis by blast
qed

lemma twelve_engine_collector:
  "buffer (collector twelve_engine)
     = [JInt 1, JInt 2, JInt 3, JInt 4, JInt 5, JInt 6, JInt 7, JInt 8, JInt 9, JInt 10,
        JInt 11, JInt 12]"
  "reverse_order (collector twelve_engine)"
  by (simp_all add: twelve_engine_def FloJsonOutputCollector_init_def)

text \<open>
  Claim C8 as stated fails: with the default \<open>reverse_order\<close> and twelve buffer entries
  collected in the order 1 to 12, the results are the entries 10 down to 1; the two most
  recent entries, 11 and 12, are not returned.
\<close>

theorem introspection_returns_oldest_counterexample:
  "reverse_order (collector twelve_engine)
   \<and> last (buffer (collector twelve_engine)) = JInt 12
   \<and> \<not> isl (introspective_traversal sample_host (U ''q'') twelve_engine)
   \<and> obj_get (U ''results'')
        (fst (projr (introspective_traversal sample_host (U ''q'') twelve_engine)))
       = Some (JArr [JInt 10, JInt 9, JInt 8, JInt 7, JInt 6, JInt 5, JInt 4, JInt 3, JInt 2,
                     JInt 1])"
  by (simp add: introspective_traversal_closed_form twelve_engine_collector obj_get_def
        U_eq_iff)

theorem introspective_traversal_summary_witness:
  "obj_get (U ''results'')
     (fst (projr (introspective_traversal sample_host (U ''q'')
        (twelve_engine\<lparr>collector := (collector twelve_engine)\<lparr>reverse_order := False\<rparr>\<rparr>))))
     = Some (JArr [JInt 3, JInt 4, JInt 5, JInt 6, JInt 7, JInt 8, JInt 9, JInt 10, JInt 11,
                   JInt 12])
   \<and> map stage (memory_lines (snd (projr (introspective_traversal sample_host (U ''q'')
        (twelve_engine\<lparr>collector := (collector twelve_engine)\<lparr>reverse_order := False\<rparr>\<rparr>)))))
     = map stage (memory_lines twelve_engine) @ [U ''introspection'']"
  using introspective_traversal_summary [of sample_host "U ''q''"
          "twelve_engine\<lparr>collector := (collector twelve_engine)\<lparr>reverse_order := False\<rparr>\<rparr>"]
  by (auto simp: twelve_engine_collector obj_get_def U_eq_iff)

text \<open>
  Claim C10. \<open>get_runtime_status\<close> reports as \<open>last_checkpoint\<close> the stage of the last
  ledger record, or \<open>none\<close> for an empty ledger; its \<open>semantic_distribution\<close> gives, for
  each of the three tags, the number of ledger records carrying it; the engine (ledger
  and buffer included) is unchanged.
\<close>

theorem get_runtime_status_report:
  "obj_get (U ''last_checkpoint'') (fst (get_runtime_status h e))
     = Some (JStr (if memory_lines e = [] then U ''none''
                   else stage (last (memory_lines e))))
   \<and> obj_get (U ''semantic_distribution'') (fst (get_runtime_status h e))
     = Some (JObj
         [(U ''ancestral'',
           JInt (int (length (filter (\<lambda>l. U ''ancestral'' \<in> set (line_semantic_tags l))
                                (memory_lines e))))),
          (U ''emotional'',
           JInt (int (length (filter (\<lambda>l. U ''emotional'' \<in> set (line_semantic_tags l))
                                (memory_lines e))))),
          (U ''symbolic'',
           JInt (int (length (filter (\<lambda>l. U ''symbolic'' \<in> set (line_semantic_tags l))
                                (memory_lines e)))))])
   \<and> snd (get_runtime_status h e) = e"
  by (simp add: get_runtime_status_def obj_get_def count_tag_def U_eq_iff)

end
